theory Spec2Isabelle
  imports Complex_Main
begin

section \<open>Floating-point values\<close>

text \<open>
  A Python float (and a NumPy float64) is modelled by its IEEE kind: a finite value,
  carried as an exact real (\<open>Fin 0\<close> is \<open>+0.0\<close>), negative zero, the two
  infinities and NaN.  Rounding of finite values to binary64 is not modelled; the
  special values, which decide branches and the results of \<open>atan2\<close>, are.
\<close>

datatype pyfloat = Fin real | NegZero | PInf | NInf | NaN

fun is_nan :: "pyfloat \<Rightarrow> bool" where
  "is_nan NaN = True"
| "is_nan _ = False"

fun is_inf :: "pyfloat \<Rightarrow> bool" where
  "is_inf PInf = True"
| "is_inf NInf = True"
| "is_inf _ = False"


text \<open>The real value of a finite float; 0 stands in for the others, which callers exclude.\<close>

fun fval :: "pyfloat \<Rightarrow> real" where
  "fval (Fin r) = r"
| "fval _ = 0"

text \<open>
  A complex128 inside \<open>compute_itpc\<close> is either finite or has a NaN component
  (\<open>nan+nanj\<close>): the exponentials of purely imaginary finite numbers and their sums
  are finite, and everything else that arises there is NaN-contaminated.
\<close>

datatype npcomplex = CFin complex | CNaN

section \<open>Arrays\<close>

text \<open>
  \<open>np.array\<close> of a list of rows: a one-dimensional array of shape \<open>(k,)\<close>, or a
  two-dimensional one of shape \<open>(n, m)\<close> stored as its \<open>n\<close> rows together with
  \<open>m\<close>.  \<open>np.array([])\<close> has shape \<open>(0,)\<close>.
\<close>

datatype 'a ndarray = Arr1 "'a list" | Arr2 nat "'a list list"

definition np_array :: "'a list list \<Rightarrow> 'a ndarray" where
  "np_array rows = (if rows = [] then Arr1 [] else Arr2 (length (hd rows)) rows)"


fun map_ndarray :: "('a \<Rightarrow> 'b) \<Rightarrow> 'a ndarray \<Rightarrow> 'b ndarray" where
  "map_ndarray f (Arr1 xs) = Arr1 (map f xs)"
| "map_ndarray f (Arr2 m rows) = Arr2 m (map (map f) rows)"

text \<open>The result of a reduction along axis 0: a scalar for shape \<open>(k,)\<close>, a vector
  of length \<open>m\<close> for shape \<open>(n, m)\<close>.\<close>

datatype 'a reduced = Scalar 'a | Vector "'a list"

fun map_reduced :: "('a \<Rightarrow> 'b) \<Rightarrow> 'a reduced \<Rightarrow> 'b reduced" where
  "map_reduced f (Scalar x) = Scalar (f x)"
| "map_reduced f (Vector xs) = Vector (map f xs)"

definition column :: "nat \<Rightarrow> 'a list list \<Rightarrow> 'a list" where
  "column j rows = map (\<lambda>r. r ! j) rows"

section \<open>compute\_itpc\<close>

text \<open>\<open>1j * phases\<close>, elementwise: the float is cast to complex and multiplied by
  \<open>0+1j\<close>; the real part \<open>0 * theta - 1 * 0\<close> is NaN unless \<open>theta\<close> is finite.\<close>

fun times_1j :: "pyfloat \<Rightarrow> npcomplex" where
  "times_1j (Fin r) = CFin (\<i> * complex_of_real r)"
| "times_1j NegZero = CFin (\<i> * complex_of_real 0)"
| "times_1j _ = CNaN"

fun np_exp :: "npcomplex \<Rightarrow> npcomplex" where
  "np_exp (CFin z) = CFin (exp z)"
| "np_exp CNaN = CNaN"

fun c_add :: "npcomplex \<Rightarrow> npcomplex \<Rightarrow> npcomplex" where
  "c_add (CFin a) (CFin b) = CFin (a + b)"
| "c_add _ _ = CNaN"

definition c_sum :: "npcomplex list \<Rightarrow> npcomplex" where
  "c_sum zs = foldl c_add (CFin 0) zs"

text \<open>The mean of a slice: the sum divided by the count; an empty slice gives
  \<open>0/0 = nan\<close> (NumPy only warns).\<close>

definition c_mean :: "npcomplex list \<Rightarrow> npcomplex" where
  "c_mean zs =
     (if zs = [] then CNaN
      else case c_sum zs of
             CFin s \<Rightarrow> CFin (s / of_nat (length zs))
           | CNaN \<Rightarrow> CNaN)"

fun np_mean_axis0 :: "npcomplex ndarray \<Rightarrow> npcomplex reduced" where
  "np_mean_axis0 (Arr1 zs) = Scalar (c_mean zs)"
| "np_mean_axis0 (Arr2 m rows) = Vector (map (\<lambda>j. c_mean (column j rows)) [0..<m])"

fun np_abs :: "npcomplex \<Rightarrow> pyfloat" where
  "np_abs (CFin z) = Fin (cmod z)"
| "np_abs CNaN = NaN"

definition compute_itpc :: "pyfloat ndarray \<Rightarrow> pyfloat reduced" where
  "compute_itpc phases =
     (let mean_phase_vector = np_mean_axis0 (map_ndarray np_exp (map_ndarray times_1j phases));
          itpc = map_reduced np_abs mean_phase_vector
      in itpc)"





section \<open>Python values and errors\<close>

text \<open>
  The values a table cell can hold.  Strings are ASCII character lists.  NumPy's
  scalar types behave as the Python types they extend (\<open>np.float64\<close> is a
  \<open>float\<close>, \<open>np.complex128\<close> a \<open>complex\<close>).
\<close>

datatype pycomplex = PyComplex (re_part: pyfloat) (im_part: pyfloat)

datatype pyval =
    VComplex pycomplex
  | VList "pyval list"
  | VStr string
  | VFloat pyfloat
  | VInt int
  | VBool bool
  | VNone

text \<open>The exceptions of the modelled operations.  \<open>KeyboardInterrupt\<close> derives from
  \<open>BaseException\<close> only, so \<open>except Exception\<close> lets it through.\<close>

datatype pyerror =
  ValueError | TypeError | AttributeError | OverflowError | KeyError | KeyboardInterrupt

fun is_Exception :: "pyerror \<Rightarrow> bool" where
  "is_Exception KeyboardInterrupt = False"
| "is_Exception _ = True"

section \<open>String operations\<close>

text \<open>\<open>s.strip(chars)\<close> and \<open>s.rstrip(chars)\<close> remove every leading and trailing
  (respectively trailing) character that occurs in \<open>chars\<close>.\<close>

definition rstrip_while :: "(char \<Rightarrow> bool) \<Rightarrow> string \<Rightarrow> string" where
  "rstrip_while P s = rev (dropWhile P (rev s))"

definition strip_while :: "(char \<Rightarrow> bool) \<Rightarrow> string \<Rightarrow> string" where
  "strip_while P s = dropWhile P (rstrip_while P s)"

definition str_rstrip :: "string \<Rightarrow> string \<Rightarrow> string" where
  "str_rstrip chars s = rstrip_while (\<lambda>c. c \<in> set chars) s"

definition str_strip :: "string \<Rightarrow> string \<Rightarrow> string" where
  "str_strip chars s = strip_while (\<lambda>c. c \<in> set chars) s"

definition str_replace :: "char \<Rightarrow> char \<Rightarrow> string \<Rightarrow> string" where
  "str_replace old new s = map (\<lambda>c. if c = old then new else c) s"

definition is_space :: "char \<Rightarrow> bool" where
  "is_space c \<longleftrightarrow> c \<in> set [CHR '' '', CHR 0x09, CHR 0x0A, CHR 0x0B, CHR 0x0C, CHR 0x0D]"

definition is_digit :: "char \<Rightarrow> bool" where
  "is_digit c \<longleftrightarrow> c \<in> set ''0123456789''"

definition digit_val :: "char \<Rightarrow> nat" where
  "digit_val c =
     (case map_of (zip ''0123456789'' [0, 1, 2, 3, 4, 5, 6, 7, 8, 9]) c of
        Some d \<Rightarrow> d
      | None \<Rightarrow> 0)"

definition digits_val :: "string \<Rightarrow> nat" where
  "digits_val ds = foldl (\<lambda>a c. 10 * a + digit_val c) 0 ds"

definition lower :: "char \<Rightarrow> char" where
  "lower c =
     (case map_of (zip ''ABCDEFGHIJKLMNOPQRSTUVWXYZ'' ''abcdefghijklmnopqrstuvwxyz'') c of
        Some l \<Rightarrow> l
      | None \<Rightarrow> c)"

text \<open>Does \<open>s\<close> start with \<open>p\<close>, ignoring case (\<open>p\<close> is lower case)?\<close>

definition starts_with_ci :: "string \<Rightarrow> string \<Rightarrow> bool" where
  "starts_with_ci p s \<longleftrightarrow> map lower (take (length p) s) = p"

section \<open>Parsing floats: the builtins float and complex on strings\<close>

text \<open>
  Digit-group underscores are validated and removed before parsing: an underscore
  must stand between two digits.  \<open>prev\<close> is the character before the current one.
\<close>

fun remove_underscores :: "char \<Rightarrow> string \<Rightarrow> string option" where
  "remove_underscores prev [] = (if prev = CHR ''_'' then None else Some [])"
| "remove_underscores prev (c # cs) =
     (if c = CHR ''_'' then
        (if is_digit prev then remove_underscores c cs else None)
      else if prev = CHR ''_'' \<and> \<not> is_digit c then None
      else map_option (Cons c) (remove_underscores c cs))"

text \<open>The largest magnitude that still rounds to a finite binary64 is just below
  \<open>2^1024 - 2^970\<close>; from there on a string converts to an infinity and an
  \<open>int\<close> raises \<open>OverflowError\<close>.\<close>

definition dbl_overflow :: "real \<Rightarrow> bool" where
  "dbl_overflow v \<longleftrightarrow> 2 ^ 1024 - 2 ^ 970 \<le> \<bar>v\<bar>"

definition mk_float :: "bool \<Rightarrow> real \<Rightarrow> pyfloat" where
  "mk_float neg v =
     (if v = 0 then (if neg then NegZero else Fin 0)
      else if dbl_overflow v then (if neg then NInf else PInf)
      else Fin (if neg then - v else v))"

text \<open>An optional sign: whether it is a minus, and the rest.\<close>

fun take_sign :: "string \<Rightarrow> bool \<times> string" where
  "take_sign [] = (False, [])"
| "take_sign (c # cs) =
     (if c = CHR ''-'' then (True, cs) else if c = CHR ''+'' then (False, cs)
      else (False, c # cs))"

text \<open>An optional exponent part \<open>e[+-]digits\<close>: its value and the rest; without
  digits nothing is consumed.\<close>

definition take_exponent :: "string \<Rightarrow> int \<times> string" where
  "take_exponent s =
     (case s of
        [] \<Rightarrow> (0, s)
      | c # cs \<Rightarrow>
          if c = CHR ''e'' \<or> c = CHR ''E'' then
            (let (neg, r) = take_sign cs;
                 ds = takeWhile is_digit r
             in if ds = [] then (0, s)
                else ((if neg then - int (digits_val ds) else int (digits_val ds)),
                      dropWhile is_digit r))
          else (0, s))"

text \<open>\<open>inf\<close>, \<open>infinity\<close> and \<open>nan\<close>, with an optional sign, in any case.\<close>

definition parse_inf_or_nan :: "string \<Rightarrow> (pyfloat \<times> string) option" where
  "parse_inf_or_nan s =
     (let (neg, r) = take_sign s
      in if starts_with_ci ''inf'' r then
           Some (if neg then NInf else PInf,
                 if starts_with_ci ''inity'' (drop 3 r) then drop 8 r else drop 3 r)
         else if starts_with_ci ''nan'' r then Some (NaN, drop 3 r)
         else None)"

text \<open>
  The prefix parser behind both builtins (\<open>PyOS_string_to_double\<close> with an end
  pointer): the longest prefix that is a decimal literal \<open>[sign] digits [. digits]
  [exponent]\<close> with at least one digit, or else an infinity or NaN; the result and
  the unparsed rest, or \<open>None\<close> when no prefix is a number.
\<close>

definition string_to_double :: "string \<Rightarrow> (pyfloat \<times> string) option" where
  "string_to_double s =
     (let (neg, s1) = take_sign s;
          ip = takeWhile is_digit s1;
          s2 = dropWhile is_digit s1;
          has_point = (s2 \<noteq> [] \<and> hd s2 = CHR ''.'');
          fp = (if has_point then takeWhile is_digit (tl s2) else []);
          s3 = (if has_point then dropWhile is_digit (tl s2) else s2)
      in if ip = [] \<and> fp = [] then parse_inf_or_nan s
         else
           (let (ex, s4) = take_exponent s3;
                v = real (digits_val (ip @ fp)) * 10 powi (ex - int (length fp))
            in Some (mk_float neg v, s4)))"

text \<open>\<open>float(s)\<close> for a string: the whole string, apart from surrounding white
  space, must be one number.\<close>

definition float_of_str :: "string \<Rightarrow> pyerror + pyfloat" where
  "float_of_str s =
     (case remove_underscores (CHR 0x00) s of
        None \<Rightarrow> Inl ValueError
      | Some s' \<Rightarrow>
          (case string_to_double (strip_while is_space s') of
             None \<Rightarrow> Inl ValueError
           | Some (x, rest) \<Rightarrow> if rest = [] then Inr x else Inl ValueError))"

text \<open>The imaginary unit \<open>j\<close> or \<open>J\<close> must come next; the parts and the rest.\<close>

definition expect_j :: "pyfloat \<Rightarrow> pyfloat \<Rightarrow> string \<Rightarrow> (pycomplex \<times> string) option" where
  "expect_j x y s =
     (case s of
        [] \<Rightarrow> None
      | c # cs \<Rightarrow> if c = CHR ''j'' \<or> c = CHR ''J'' then Some (PyComplex x y, cs) else None)"

text \<open>
  The body of a complex literal: \<open><float>\<close>, \<open><float>j\<close>,
  \<open><float><signed-float>j\<close>, and the forms \<open><float><sign>j\<close>, \<open><sign>j\<close>
  and \<open>j\<close>; a missing part is \<open>+0.0\<close>.
\<close>

definition complex_body :: "string \<Rightarrow> (pycomplex \<times> string) option" where
  "complex_body s =
     (case string_to_double s of
        Some (z, r) \<Rightarrow>
          (case r of
             [] \<Rightarrow> Some (PyComplex z (Fin 0), r)
           | c # cs \<Rightarrow>
               if c = CHR ''+'' \<or> c = CHR ''-'' then
                 (case string_to_double r of
                    Some (y, r') \<Rightarrow> expect_j z y r'
                  | None \<Rightarrow> expect_j z (if c = CHR ''+'' then Fin 1 else Fin (- 1)) cs)
               else if c = CHR ''j'' \<or> c = CHR ''J'' then Some (PyComplex (Fin 0) z, cs)
               else Some (PyComplex z (Fin 0), r))
      | None \<Rightarrow>
          (case s of
             [] \<Rightarrow> None
           | c # cs \<Rightarrow>
               if c = CHR ''+'' \<or> c = CHR ''-'' then
                 expect_j (Fin 0) (if c = CHR ''+'' then Fin 1 else Fin (- 1)) cs
               else expect_j (Fin 0) (Fin 1) s))"

text \<open>\<open>complex(s)\<close> for a string: white space around the literal and one pair of
  parentheses around it are allowed, nothing else.\<close>

definition complex_of_str :: "string \<Rightarrow> pyerror + pycomplex" where
  "complex_of_str s =
     (case remove_underscores (CHR 0x00) s of
        None \<Rightarrow> Inl ValueError
      | Some s' \<Rightarrow>
          (let s0 = dropWhile is_space s';
               got_bracket = (s0 \<noteq> [] \<and> hd s0 = CHR ''('');
               s1 = (if got_bracket then dropWhile is_space (tl s0) else s0)
           in case complex_body s1 of
                None \<Rightarrow> Inl ValueError
              | Some (z, s2) \<Rightarrow>
                  (let s3 = dropWhile is_space s2
                   in if got_bracket then
                        (if s3 \<noteq> [] \<and> hd s3 = CHR '')'' \<and> dropWhile is_space (tl s3) = []
                         then Inr z else Inl ValueError)
                      else if s3 = [] then Inr z else Inl ValueError)))"

section \<open>Conversions of values: float(x) and complex(x)\<close>

definition int_to_float :: "int \<Rightarrow> pyerror + pyfloat" where
  "int_to_float n = (if dbl_overflow (real_of_int n) then Inl OverflowError else Inr (Fin (real_of_int n)))"

fun py_float :: "pyval \<Rightarrow> pyerror + pyfloat" where
  "py_float (VStr s) = float_of_str s"
| "py_float (VFloat x) = Inr x"
| "py_float (VInt n) = int_to_float n"
| "py_float (VBool b) = Inr (Fin (if b then 1 else 0))"
| "py_float (VComplex z) = Inl TypeError"
| "py_float (VList vs) = Inl TypeError"
| "py_float VNone = Inl TypeError"

fun py_complex :: "pyval \<Rightarrow> pyerror + pycomplex" where
  "py_complex (VComplex z) = Inr z"
| "py_complex (VStr s) = complex_of_str s"
| "py_complex (VFloat x) = Inr (PyComplex x (Fin 0))"
| "py_complex (VInt n) =
     (case int_to_float n of Inl e \<Rightarrow> Inl e | Inr x \<Rightarrow> Inr (PyComplex x (Fin 0)))"
| "py_complex (VBool b) = Inr (PyComplex (Fin (if b then 1 else 0)) (Fin 0))"
| "py_complex (VList vs) = Inl TypeError"
| "py_complex VNone = Inl TypeError"

section \<open>The four-quadrant arctangent\<close>

fun signbit :: "pyfloat \<Rightarrow> bool" where
  "signbit (Fin r) = (r < 0)"
| "signbit NegZero = True"
| "signbit NInf = True"
| "signbit _ = False"

fun is_zero :: "pyfloat \<Rightarrow> bool" where
  "is_zero (Fin r) = (r = 0)"
| "is_zero NegZero = True"
| "is_zero _ = False"

text \<open>\<open>copysign(m, y)\<close> for a magnitude \<open>m \<ge> 0\<close>.\<close>

definition copysign :: "real \<Rightarrow> pyfloat \<Rightarrow> pyfloat" where
  "copysign m y = (if signbit y then (if m = 0 then NegZero else Fin (- m)) else Fin m)"

text \<open>The arctangent of \<open>y / x\<close> in the quadrant of \<open>(x, y)\<close>, for finite \<open>x\<close> and
  finite non-zero \<open>y\<close>.\<close>

definition real_atan2 :: "real \<Rightarrow> real \<Rightarrow> real" where
  "real_atan2 y x =
     (if 0 < x then arctan (y / x)
      else if x < 0 then (if 0 < y then arctan (y / x) + pi else arctan (y / x) - pi)
      else (if 0 < y then pi / 2 else - (pi / 2)))"

text \<open>\<open>math.atan2(y, x)\<close>, with the special cases of the C standard as CPython
  spells them out.\<close>

definition atan2 :: "pyfloat \<Rightarrow> pyfloat \<Rightarrow> pyfloat" where
  "atan2 y x =
     (if is_nan x \<or> is_nan y then NaN
      else if is_inf y then
        (if is_inf x then
           (if \<not> signbit x then copysign (pi / 4) y else copysign (3 * pi / 4) y)
         else copysign (pi / 2) y)
      else if is_inf x \<or> is_zero y then
        (if \<not> signbit x then copysign 0 y else copysign pi y)
      else Fin (real_atan2 (fval y) (fval x)))"

text \<open>\<open>cmath.phase(z)\<close> is \<open>atan2(z.imag, z.real)\<close>.\<close>

definition phase :: "pycomplex \<Rightarrow> pyfloat" where
  "phase z = atan2 (im_part z) (re_part z)"




section \<open>parse\_complex\_value\<close>

text \<open>
  The body of the \<open>try\<close> block.  An exception is returned together with the value
  the variable \<open>val\<close> holds when it is raised, which is what the handler prints.
\<close>

type_synonym parsed = "pycomplex \<times> pyfloat"

text \<open>The string branch: \<open>val\<close> is rebound to the string stripped of the characters
  \<open>'"[]\<close> and then to that string with \<open>i\<close> replaced by \<open>j\<close>.\<close>

definition quote_chars :: string where
  "quote_chars = [CHR 0x27, CHR 0x22, CHR ''['', CHR '']'']"

definition parse_str :: "string \<Rightarrow> (pyerror \<times> pyval) + parsed" where
  "parse_str s =
     (let val = str_strip quote_chars s
      in if CHR ''i'' \<in> set val \<or> CHR ''j'' \<in> set val then
           (let val' = str_replace (CHR ''i'') (CHR ''j'') val
            in case complex_of_str val' of
                 Inl e \<Rightarrow> Inl (e, VStr val')
               | Inr complex_num \<Rightarrow> Inr (complex_num, phase complex_num))
         else
           (case float_of_str val of
              Inl e \<Rightarrow> Inl (e, VStr val)
            | Inr real_v \<Rightarrow> Inr (PyComplex real_v (Fin 0), Fin 0)))"

text \<open>Everything after the list branch: the string branch, or the direct conversion.\<close>

definition parse_scalar :: "pyval \<Rightarrow> (pyerror \<times> pyval) + parsed" where
  "parse_scalar val =
     (case val of
        VStr s \<Rightarrow> parse_str s
      | _ \<Rightarrow>
          (case py_complex val of
             Inl e \<Rightarrow> Inl (e, val)
           | Inr complex_num \<Rightarrow> Inr (complex_num, phase complex_num)))"

text \<open>The two-element list: \<open>float(val[0])\<close>, then \<open>val[1].rstrip('i')\<close>, which only
  a string has, then \<open>float\<close> of that.\<close>

definition parse_pair :: "pyval \<Rightarrow> pyval \<Rightarrow> (pyerror \<times> pyval) + parsed" where
  "parse_pair a b =
     (case py_float a of
        Inl e \<Rightarrow> Inl (e, VList [a, b])
      | Inr real_v \<Rightarrow>
          (case b of
             VStr s \<Rightarrow>
               (case float_of_str (str_rstrip ''i'' s) of
                  Inl e \<Rightarrow> Inl (e, VList [a, b])
                | Inr imag_v \<Rightarrow> Inr (PyComplex real_v imag_v, atan2 imag_v real_v))
           | _ \<Rightarrow> Inl (AttributeError, VList [a, b])))"

fun parse_body :: "pyval \<Rightarrow> (pyerror \<times> pyval) + parsed" where
  "parse_body (VComplex z) = Inr (z, phase z)"
| "parse_body (VList [a, b]) = parse_pair a b"
| "parse_body (VList [a]) = parse_scalar a"
| "parse_body val = parse_scalar val"

text \<open>A line printed by the handler: the value of \<open>val\<close> and the exception.\<close>

datatype log_line = ErrorParsing pyval pyerror

text \<open>The function with its handler: an \<open>Exception\<close> is caught, reported on standard
  output and replaced by \<open>(0+0j, 0)\<close>.  The result is paired with the lines printed.\<close>

definition parse_complex_value :: "pyval \<Rightarrow> (pyerror + parsed) \<times> log_line list" where
  "parse_complex_value val =
     (case parse_body val of
        Inr r \<Rightarrow> (Inr r, [])
      | Inl (e, val') \<Rightarrow>
          if is_Exception e then (Inr (PyComplex (Fin 0) (Fin 0), Fin 0), [ErrorParsing val' e])
          else (Inl e, []))"

section \<open>The analysis object and the input table\<close>

record EEGPhaseAnalysis =
  data_path :: string
  num_frequencies :: int
  num_electrodes :: int
  trial_conditions :: "(string \<times> int \<times> int) list"
  frequencies :: "real list"

text \<open>The constructor; \<open>num_frequencies\<close> defaults to 58 and \<open>num_electrodes\<close> to 32.
  The dictionary of conditions is kept as the list of its items, in insertion order.\<close>

definition predefined_frequencies :: "real list" where
  "predefined_frequencies =
    [0.260416666666667, 0.325520833333333, 0.390625, 0.455729166666667,
     0.520833333333333, 0.5859375, 0.651041666666667, 0.716145833333333,
     0.78125, 0.846354166666667, 0.911458333333333, 0.9765625,
     1.04166666666667, 1.10677083333333, 1.171875, 1.23697916666667,
     1.30208333333333, 1.3671875, 1.43229166666667, 1.49739583333333,
     1.5625, 1.62760416666667, 1.69270833333333, 1.7578125,
     1.82291666666667, 1.88802083333333, 1.953125, 2.01822916666667,
     2.08333333333333, 2.1484375, 2.21354166666667, 2.27864583333333,
     2.34375, 2.40885416666667, 2.47395833333333, 2.5390625,
     2.60416666666667, 2.66927083333333, 2.734375, 2.79947916666667,
     2.86458333333333, 2.9296875, 2.99479166666667, 3.05989583333333,
     3.125, 3.19010416666667, 3.25520833333333, 3.3203125,
     3.38541666666667, 3.45052083333333, 3.515625, 3.58072916666667,
     3.64583333333333, 3.7109375, 3.77604166666667, 3.84114583333333,
     3.90625, 3.97135416666667]"

definition init :: "string \<Rightarrow> int \<Rightarrow> int \<Rightarrow> EEGPhaseAnalysis" where
  "init path nf ne =
     \<lparr> data_path = path,
       num_frequencies = nf,
       num_electrodes = ne,
       trial_conditions = [(''GN'', 1, 30), (''GS'', 31, 60), (''UN'', 61, 90), (''US'', 91, 120)],
       frequencies = predefined_frequencies \<rparr>"

definition init_default :: "string \<Rightarrow> EEGPhaseAnalysis" where
  "init_default path = init path 58 32"

text \<open>One row of the table: the two key columns, and the other cells by column name
  (\<open>None\<close> for a column the table does not have).\<close>

record trial =
  stimuli :: int
  electrode_number :: int
  cells :: "string \<Rightarrow> pyval option"

section \<open>preprocess\_data\<close>

text \<open>The decimal numeral of a natural number, as an f-string formats it.\<close>

definition digit_char :: "nat \<Rightarrow> char" where
  "digit_char d = ''0123456789'' ! d"

fun str_of_nat :: "nat \<Rightarrow> string" where
  "str_of_nat n = (if n < 10 then [digit_char n] else str_of_nat (n div 10) @ [digit_char (n mod 10)])"

definition complex_columns :: "string list" where
  "complex_columns = map (\<lambda>i. ''complex_val_'' @ str_of_nat i) [1..<58]"

text \<open>Running a list of computations in order; the first exception ends the run.\<close>

fun sequence_sum :: "('e + 'a) list \<Rightarrow> 'e + 'a list" where
  "sequence_sum [] = Inr []"
| "sequence_sum (x # xs) =
     (case x of
        Inl e \<Rightarrow> Inl e
      | Inr v \<Rightarrow> (case sequence_sum xs of Inl e \<Rightarrow> Inl e | Inr vs \<Rightarrow> Inr (v # vs)))"

definition condition_subset :: "trial list \<Rightarrow> int \<Rightarrow> int \<Rightarrow> trial list" where
  "condition_subset data start stop = filter (\<lambda>r. stimuli r \<ge> start \<and> stimuli r \<le> stop) data"

definition electrode_data :: "trial list \<Rightarrow> int \<Rightarrow> trial list" where
  "electrode_data rows electrode = filter (\<lambda>r. electrode_number r = electrode) rows"

text \<open>\<open>row[col]\<close> raises \<open>KeyError\<close> for a missing column; the lines the parser prints
  go to standard output and are not part of the result.\<close>

definition row_complex_with_phase :: "trial \<Rightarrow> pyerror + parsed list" where
  "row_complex_with_phase row =
     sequence_sum
       (map (\<lambda>col. case cells row col of
                      None \<Rightarrow> Inl KeyError
                    | Some v \<Rightarrow> fst (parse_complex_value v))
            complex_columns)"

record bucket =
  bucket_complex :: "pycomplex ndarray"
  bucket_phases :: "pyfloat ndarray"

definition make_bucket :: "trial list \<Rightarrow> pyerror + bucket" where
  "make_bucket rows =
     (case sequence_sum (map row_complex_with_phase rows) of
        Inl e \<Rightarrow> Inl e
      | Inr parsed_rows \<Rightarrow>
          (let complex_values = map (map fst) parsed_rows;
               phase_values = map (map snd) parsed_rows
           in Inr \<lparr> bucket_complex = np_array complex_values,
                    bucket_phases = np_array phase_values \<rparr>))"

definition preprocess_condition ::
    "EEGPhaseAnalysis \<Rightarrow> trial list \<Rightarrow> int \<Rightarrow> int \<Rightarrow> pyerror + (int \<times> bucket) list" where
  "preprocess_condition self data start stop =
     (let condition_rows = condition_subset data start stop
      in sequence_sum
           (map (\<lambda>electrode.
                   case make_bucket (electrode_data condition_rows electrode) of
                     Inl e \<Rightarrow> Inl e
                   | Inr b \<Rightarrow> Inr (electrode, b))
                [1..num_electrodes self]))"

definition preprocess_data ::
    "EEGPhaseAnalysis \<Rightarrow> trial list \<Rightarrow> pyerror + (string \<times> (int \<times> bucket) list) list" where
  "preprocess_data self data =
     sequence_sum
       (map (\<lambda>(condition, start, stop).
               case preprocess_condition self data start stop of
                 Inl e \<Rightarrow> Inl e
               | Inr condition_data \<Rightarrow> Inr (condition, condition_data))
            (trial_conditions self))"

text \<open>The keys of the buckets that hold a given row.\<close>

definition buckets_holding :: "EEGPhaseAnalysis \<Rightarrow> trial list \<Rightarrow> trial \<Rightarrow> (string \<times> int) list" where
  "buckets_holding self data r =
     concat
       (map (\<lambda>(condition, start, stop).
               map (\<lambda>electrode. (condition, electrode))
                 (filter (\<lambda>electrode.
                            r \<in> set (electrode_data (condition_subset data start stop) electrode))
                         [1..num_electrodes self]))
            (trial_conditions self))"

section \<open>analyze\_itpc and the exported rows\<close>

record itpc_entry =
  entry_itpc :: "pyfloat reduced"
  entry_complex_data :: "pycomplex ndarray"

text \<open>The table that \<open>load_data\<close> reads from the file is a parameter here.\<close>

definition analyze_itpc ::
    "EEGPhaseAnalysis \<Rightarrow> trial list \<Rightarrow> pyerror + (string \<times> (int \<times> itpc_entry) list) list" where
  "analyze_itpc self full_data =
     (case preprocess_data self full_data of
        Inl e \<Rightarrow> Inl e
      | Inr preprocessed_data \<Rightarrow>
          Inr (map (\<lambda>(condition, electrode_dict).
                      (condition,
                       map (\<lambda>(electrode, data_dict).
                              (electrode,
                               \<lparr> entry_itpc = compute_itpc (bucket_phases data_dict),
                                 entry_complex_data = bucket_complex data_dict \<rparr>))
                           electrode_dict))
                   preprocessed_data))"

text \<open>The \<open>ITPC\<close> cell of an exported row: the list of an array, or the value itself
  when it is not an \<open>np.ndarray\<close>.\<close>

datatype exported = ItpcList "pyfloat list" | ItpcValue pyfloat

fun export_cell :: "pyfloat reduced \<Rightarrow> exported" where
  "export_cell (Vector v) = ItpcList v"
| "export_cell (Scalar x) = ItpcValue x"

definition export_data ::
    "(string \<times> (int \<times> itpc_entry) list) list \<Rightarrow> (string \<times> int \<times> exported) list" where
  "export_data itpc_results =
     concat
       (map (\<lambda>(condition, electrode_dict).
               map (\<lambda>(electrode, data_dict). (condition, electrode, export_cell (entry_itpc data_dict)))
                   electrode_dict)
            itpc_results)"

section \<open>Example tables\<close>

text \<open>A trial of condition GN (stimulus 30, the upper boundary) on electrode 1 whose
  cells all hold the integer 1, and the bucket it is parsed into.\<close>

definition example_trial :: trial where
  "example_trial = \<lparr>stimuli = 30, electrode_number = 1, cells = \<lambda>col. Some (VInt 1)\<rparr>"

definition example_bucket :: bucket where
  "example_bucket =
     \<lparr>bucket_complex = Arr2 57 [replicate 57 (PyComplex (Fin 1) (Fin 0))],
      bucket_phases = Arr2 57 [replicate 57 (Fin 0)]\<rparr>"

text \<open>The bucket of a (condition, electrode) pair without trials, and the result of
  \<open>preprocess_data\<close> for one electrode on the table that holds the example trial only.\<close>

definition empty_bucket :: bucket where
  "empty_bucket = \<lparr>bucket_complex = Arr1 [], bucket_phases = Arr1 []\<rparr>"

definition example_preprocessed :: "(string \<times> (int \<times> bucket) list) list" where
  "example_preprocessed =
     [(''GN'', [(1, example_bucket)]), (''GS'', [(1, empty_bucket)]),
      (''UN'', [(1, empty_bucket)]), (''US'', [(1, empty_bucket)])]"



text \<open>A trial whose stimulus lies in the range of GN and whose electrode number, 33, is
  beyond the 32 electrodes of the default.\<close>

definition stray_trial :: trial where
  "stray_trial = \<lparr>stimuli = 5, electrode_number = 33, cells = \<lambda>col. None\<rparr>"

section \<open>Properties of compute\_itpc\<close>
















lemma np_array_nonempty:
  "rows \<noteq> [] \<Longrightarrow> np_array rows = Arr2 (length (hd rows)) rows"
  by (simp add: np_array_def)








section \<open>Properties of parse\_complex\_value\<close>

text \<open>The definitions that evaluating the parser on a concrete value unfolds.\<close>

lemmas parse_eval = float_of_str_def string_to_double_def take_exponent_def parse_inf_or_nan_def
  starts_with_ci_def lower_def mk_float_def dbl_overflow_def is_digit_def is_space_def digit_val_def digits_val_def
  quote_chars_def strip_while_def rstrip_while_def str_strip_def str_rstrip_def str_replace_def
  complex_of_str_def complex_body_def expect_j_def int_to_float_def
  parse_str_def parse_scalar_def parse_pair_def parse_complex_value_def
  phase_def atan2_def copysign_def











text \<open>
  Claim C7: for every string cell that, after the characters \<open>'"[]\<close> are stripped
  from both ends, holds no \<open>i\<close> and no \<open>j\<close> and that \<open>float\<close> accepts as the
  number \<open>r\<close>, also a negative one, the result is the complex value \<open>(r, 0)\<close> with
  the phase 0, a constant that is not computed from \<open>r\<close>.
\<close>

theorem parse_bare_real_string:
  assumes "val = str_strip quote_chars s"
    and "CHR ''i'' \<notin> set val" and "CHR ''j'' \<notin> set val"
    and "float_of_str val = Inr r"
  shows "parse_complex_value (VStr s) = (Inr (PyComplex r (Fin 0), Fin 0), [])"
  using assms by (simp add: parse_complex_value_def parse_scalar_def parse_str_def Let_def)

theorem parse_bare_real_string_witness:
  "parse_complex_value (VStr ''[-2.5]'') = (Inr (PyComplex (Fin (- 5 / 2)) (Fin 0), Fin 0), [])"
proof -
  have a: "''-2.5'' = str_strip quote_chars ''[-2.5]''"
    by (simp add: parse_eval)
  have b: "CHR ''i'' \<notin> set ''-2.5''" "CHR ''j'' \<notin> set ''-2.5''" by simp_all
  have c: "float_of_str ''-2.5'' = Inr (Fin (- 5 / 2))" by (simp add: parse_eval)
  from parse_bare_real_string [OF a b c] show ?thesis .
qed

text \<open>
  Claim C8, as amended: for every two-element list whose element 0 is a string or a
  number that \<open>float\<close> accepts and whose element 1 is a string that \<open>float\<close> accepts
  once all its trailing \<open>i\<close> characters are stripped, the result is
  \<open>complex(real, imag)\<close> with the phase \<open>atan2(imag, real)\<close>.
\<close>

theorem parse_two_element_list:
  assumes "py_float a = Inr re"
    and "float_of_str (str_rstrip ''i'' s) = Inr im"
  shows "parse_complex_value (VList [a, VStr s]) = (Inr (PyComplex re im, atan2 im re), [])"
  using assms by (simp add: parse_complex_value_def parse_pair_def)

theorem parse_two_element_list_witness:
  "py_float (VInt 3) = Inr (Fin 3) \<and> float_of_str (str_rstrip ''i'' ''4i'') = Inr (Fin 4) \<and>
   parse_complex_value (VList [VInt 3, VStr ''4i'']) =
     (Inr (PyComplex (Fin 3) (Fin 4), Fin (arctan (4 / 3))), [])"
proof -
  have a: "py_float (VInt 3) = Inr (Fin 3)" by (simp add: parse_eval)
  have b: "float_of_str (str_rstrip ''i'' ''4i'') = Inr (Fin 4)" by (simp add: parse_eval)
  have c: "atan2 (Fin 4) (Fin 3) = Fin (arctan (4 / 3))" by (simp add: atan2_def real_atan2_def)
  from parse_two_element_list [OF a b] a b c show ?thesis by simp
qed

text \<open>A number as element 1 has no \<open>rstrip\<close>: the \<open>AttributeError\<close> is caught and
  the result is \<open>(0+0j, 0)\<close>, not \<open>complex(1, 2)\<close>.\<close>

theorem parse_two_element_list_numbers:
  "parse_complex_value (VList [VFloat (Fin 1), VFloat (Fin 2)]) =
     (Inr (PyComplex (Fin 0) (Fin 0), Fin 0),
      [ErrorParsing (VList [VFloat (Fin 1), VFloat (Fin 2)]) AttributeError]) \<and>
   PyComplex (Fin 0) (Fin 0) \<noteq> PyComplex (Fin 1) (Fin 2)"
  by (simp add: parse_eval)

















section \<open>Properties of the pipeline\<close>

lemma sequence_sum_Inr_iff: "sequence_sum xs = Inr vs \<longleftrightarrow> xs = map Inr vs"
proof (induction xs arbitrary: vs)
  case Nil
  show ?case by auto
next
  case (Cons x xs)
  show ?case
  proof (cases x)
    case (Inl e)
    then show ?thesis by (cases vs) auto
  next
    case (Inr v)
    show ?thesis
    proof (cases "sequence_sum xs")
      case (Inl e)
      with Cons.IH [of "tl vs"] Inr show ?thesis by (cases vs) auto
    next
      case r: (Inr ws)
      with Cons.IH [of ws] Cons.IH [of "tl vs"] Inr show ?thesis by (cases vs) auto
    qed
  qed
qed


lemma sequence_sum_const: "sequence_sum (map (\<lambda>x. Inr v) xs) = Inr (replicate (length xs) v)"
  by (simp add: sequence_sum_Inr_iff map_replicate_const)

lemma sequence_sum_case:
  assumes "sequence_sum (map (\<lambda>x. case f x of Inl e \<Rightarrow> Inl e | Inr b \<Rightarrow> Inr (g x b)) xs) = Inr vs"
  shows "list_all2 (\<lambda>x v. \<exists>b. f x = Inr b \<and> v = g x b) xs vs"
  using assms
proof (induction xs arbitrary: vs)
  case Nil
  then show ?case by simp
next
  case (Cons x xs)
  then show ?case
    by (cases vs) (auto simp add: sequence_sum_Inr_iff split: sum.splits)
qed

lemma length_complex_columns: "length complex_columns = 57"
  by (simp add: complex_columns_def)


lemma make_bucket_empty: "make_bucket [] = Inr \<lparr>bucket_complex = Arr1 [], bucket_phases = Arr1 []\<rparr>"
  by (simp add: make_bucket_def np_array_def)


lemma preprocess_condition_buckets:
  assumes "preprocess_condition self data start stop = Inr cd"
  shows "map fst cd = [1..num_electrodes self]"
    and "(e, b) \<in> set cd \<Longrightarrow> make_bucket (electrode_data (condition_subset data start stop) e) = Inr b"
proof -
  let ?f = "\<lambda>e. make_bucket (electrode_data (condition_subset data start stop) e)"
  from assms have "sequence_sum (map (\<lambda>x. case ?f x of Inl e \<Rightarrow> Inl e | Inr b \<Rightarrow> Inr (x, b))
      [1..num_electrodes self]) = Inr cd"
    by (simp add: preprocess_condition_def Let_def)
  then have la: "list_all2 (\<lambda>x v. \<exists>b. ?f x = Inr b \<and> v = (x, b)) [1..num_electrodes self] cd"
    by (rule sequence_sum_case)
  then show "map fst cd = [1..num_electrodes self]"
    by (induction rule: list_all2_induct) auto
  from la show "(e, b) \<in> set cd \<Longrightarrow> ?f e = Inr b"
    by (induction rule: list_all2_induct) auto
qed

lemma preprocess_data_conditions:
  assumes "preprocess_data self data = Inr pre"
  shows "map fst pre = map fst (trial_conditions self)"
    and "(c, cd) \<in> set pre \<Longrightarrow>
           \<exists>start stop. (c, start, stop) \<in> set (trial_conditions self) \<and>
             preprocess_condition self data start stop = Inr cd"
proof -
  let ?f = "\<lambda>x. preprocess_condition self data (fst (snd x)) (snd (snd x))"
  have fe: "(\<lambda>(condition, start, stop).
               case preprocess_condition self data start stop of
                 Inl e \<Rightarrow> Inl e
               | Inr condition_data \<Rightarrow> Inr (condition, condition_data)) =
            (\<lambda>x. case ?f x of Inl e \<Rightarrow> Inl e | Inr b \<Rightarrow> Inr (fst x, b))"
    by (auto simp add: fun_eq_iff split: sum.splits)
  from assms have "sequence_sum (map (\<lambda>x. case ?f x of Inl e \<Rightarrow> Inl e | Inr b \<Rightarrow> Inr (fst x, b))
      (trial_conditions self)) = Inr pre"
    unfolding preprocess_data_def fe .
  then have la: "list_all2 (\<lambda>x v. \<exists>b. ?f x = Inr b \<and> v = (fst x, b)) (trial_conditions self) pre"
    by (rule sequence_sum_case)
  then show "map fst pre = map fst (trial_conditions self)"
    by (induction rule: list_all2_induct) auto
  from la show "(c, cd) \<in> set pre \<Longrightarrow>
           \<exists>start stop. (c, start, stop) \<in> set (trial_conditions self) \<and>
             preprocess_condition self data start stop = Inr cd"
    by (induction rule: list_all2_induct) (auto, metis prod.collapse)
qed


lemma trial_conditions_init:
  "trial_conditions (init path nf ne) =
     [(''GN'', 1, 30), (''GS'', 31, 60), (''UN'', 61, 90), (''US'', 91, 120)]"
  by (simp add: init_def)

lemma num_electrodes_init: "num_electrodes (init path nf ne) = ne"
  by (simp add: init_def)


lemma parse_int_one:
  "fst (parse_complex_value (VInt 1)) = Inr (PyComplex (Fin 1) (Fin 0), Fin 0)"
  by (simp add: parse_complex_value_def parse_scalar_def int_to_float_def dbl_overflow_def
      phase_def atan2_def copysign_def)

lemma example_row_parsed:
  "row_complex_with_phase example_trial = Inr (replicate 57 (PyComplex (Fin 1) (Fin 0), Fin 0))"
  by (simp add: row_complex_with_phase_def example_trial_def parse_int_one sequence_sum_const
      length_complex_columns)

lemma example_make_bucket: "make_bucket [example_trial] = Inr example_bucket"
  by (simp add: make_bucket_def example_row_parsed np_array_def example_bucket_def)

lemma preprocess_example:
  "preprocess_data (init [] nf 1) [example_trial] = Inr example_preprocessed"
  by (simp add: preprocess_data_def preprocess_condition_def trial_conditions_init
      num_electrodes_init condition_subset_def electrode_data_def example_make_bucket
      make_bucket_empty example_preprocessed_def empty_bucket_def)
    (simp add: example_trial_def make_bucket_empty)



lemma export_data_member:
  "(c, entries) \<in> set results \<Longrightarrow> (e, entry) \<in> set entries \<Longrightarrow>
   (c, e, export_cell (entry_itpc entry)) \<in> set (export_data results)"
  by (force simp add: export_data_def)

text \<open>
  Claim C5, as amended: for a (condition, electrode) bucket with zero trials the ITPC
  computation does not fail and yields one NaN, a scalar and not a vector with a NaN for
  each frequency bin; it is stored in the results under the key of the bucket and
  exported as NaN, neither coerced to 0 nor dropped.
\<close>

theorem empty_bucket_itpc:
  assumes "analyze_itpc (init path nf ne) data = Inr results"
    and "(condition, start, stop) \<in> set (trial_conditions (init path nf ne))"
    and "1 \<le> electrode" and "electrode \<le> ne"
    and "electrode_data (condition_subset data start stop) electrode = []"
  shows "\<exists>entries. map_of results condition = Some entries \<and>
           map_of entries electrode = Some \<lparr>entry_itpc = Scalar NaN, entry_complex_data = Arr1 []\<rparr> \<and>
           (condition, electrode, ItpcValue NaN) \<in> set (export_data results)"
proof -
  let ?self = "init path nf ne"
  let ?entry = "\<lambda>data_dict. \<lparr>entry_itpc = compute_itpc (bucket_phases data_dict),
      entry_complex_data = bucket_complex data_dict\<rparr>"
  let ?conv = "\<lambda>electrode_dict. map (\<lambda>(electrode, data_dict). (electrode, ?entry data_dict)) electrode_dict"
  from assms(1) obtain pre where pre: "preprocess_data ?self data = Inr pre"
    and res: "results = map (\<lambda>(condition, electrode_dict). (condition, ?conv electrode_dict)) pre"
    by (auto simp add: analyze_itpc_def split: sum.splits)
  have keys: "map fst pre = [''GN'', ''GS'', ''UN'', ''US'']"
    using preprocess_data_conditions(1) [OF pre] by (simp add: trial_conditions_init)
  then have dist: "distinct (map fst pre)" by simp
  from assms(2) have "condition \<in> set (map fst pre)"
    by (auto simp add: keys trial_conditions_init)
  then obtain cd where cd: "(condition, cd) \<in> set pre" by auto
  from preprocess_data_conditions(2) [OF pre cd] obtain start' stop'
    where c': "(condition, start', stop') \<in> set (trial_conditions ?self)"
      and pc': "preprocess_condition ?self data start' stop' = Inr cd" by blast
  from assms(2) c' have "start' = start \<and> stop' = stop"
    by (auto simp add: trial_conditions_init)
  with pc' have pc: "preprocess_condition ?self data start stop = Inr cd" by simp
  have ekeys: "map fst cd = [1..ne]"
    using preprocess_condition_buckets(1) [OF pc] by (simp add: num_electrodes_init)
  then have edist: "distinct (map fst cd)" by simp
  from assms(3,4) have "electrode \<in> set (map fst cd)" by (simp add: ekeys)
  then obtain b where b: "(electrode, b) \<in> set cd" by auto
  from preprocess_condition_buckets(2) [OF pc b] assms(5)
  have bv: "b = \<lparr>bucket_complex = Arr1 [], bucket_phases = Arr1 []\<rparr>"
    by (simp add: make_bucket_empty)
  have m1: "map_of pre condition = Some cd"
    using dist cd by simp
  have m2: "map_of cd electrode = Some b"
    using edist b by simp
  have r1: "map_of results condition = Some (?conv cd)"
    unfolding res by (simp add: map_of_map m1)
  have r2: "map_of (?conv cd) electrode = Some (?entry b)"
    by (simp add: map_of_map m2)
  have ev: "?entry b = \<lparr>entry_itpc = Scalar NaN, entry_complex_data = Arr1 []\<rparr>"
    by (simp add: bv compute_itpc_def c_mean_def)
  from r1 have in1: "(condition, ?conv cd) \<in> set results" by (rule map_of_SomeD)
  from r2 have in2: "(electrode, ?entry b) \<in> set (?conv cd)" by (rule map_of_SomeD)
  from export_data_member [OF in1 in2] ev
  have "(condition, electrode, ItpcValue NaN) \<in> set (export_data results)" by simp
  with r1 r2 ev show ?thesis by simp
qed

theorem empty_bucket_itpc_witness:
  "electrode_data (condition_subset [example_trial] 31 60) 1 = [] \<and>
   (\<exists>results. analyze_itpc (init [] 58 1) [example_trial] = Inr results \<and>
      (''GS'', 1, ItpcValue NaN) \<in> set (export_data results))"
proof -
  obtain results where a: "analyze_itpc (init [] 58 1) [example_trial] = Inr results"
    by (simp add: analyze_itpc_def preprocess_example)
  have b: "(''GS'', 31, 60) \<in> set (trial_conditions (init [] 58 1))"
    by (simp add: trial_conditions_init)
  have c: "electrode_data (condition_subset [example_trial] 31 60) 1 = []"
    by (simp add: electrode_data_def condition_subset_def example_trial_def)
  from empty_bucket_itpc [OF a b _ _ c] a c show ?thesis by auto
qed

text \<open>The phases of a bucket without trials are \<open>np.array([])\<close>, of shape \<open>(0,)\<close>:
  the mean along axis 0 is one NaN, not a vector of 57.\<close>

theorem empty_bucket_scalar:
  "make_bucket [] = Inr empty_bucket \<and>
   compute_itpc (bucket_phases empty_bucket) = Scalar NaN \<and>
   Scalar NaN \<noteq> Vector (replicate 57 NaN)"
  by (simp add: make_bucket_empty empty_bucket_def compute_itpc_def c_mean_def)

lemma in_electrode_data:
  "r \<in> set (electrode_data (condition_subset data start stop) e) \<longleftrightarrow>
   r \<in> set data \<and> start \<le> stimuli r \<and> stimuli r \<le> stop \<and> electrode_number r = e"
  by (auto simp add: electrode_data_def condition_subset_def)

lemma filter_upto_eq:
  "filter (\<lambda>e. P \<and> k = e) [i..j] = (if P \<and> i \<le> k \<and> k \<le> j then [k] else [])"
proof (induction i j rule: upto.induct)
  case (1 i j)
  show ?case
  proof (cases "i \<le> j")
    case True
    with 1 show ?thesis by (subst upto.simps) auto
  next
    case False
    then show ?thesis by (subst upto.simps) auto
  qed
qed

lemma buckets_holding_init:
  assumes "r \<in> set data"
  shows "buckets_holding (init path nf ne) data r =
     concat (map (\<lambda>(condition, start, stop).
        if start \<le> stimuli r \<and> stimuli r \<le> stop \<and> 1 \<le> electrode_number r \<and> electrode_number r \<le> ne
        then [(condition, electrode_number r)] else [])
       [(''GN'', 1, 30), (''GS'', 31, 60), (''UN'', 61, 90), (''US'', 91, 120)])"
proof -
  have "filter (\<lambda>e. r \<in> set (electrode_data (condition_subset data start stop) e)) [1..ne] =
        (if start \<le> stimuli r \<and> stimuli r \<le> stop \<and> 1 \<le> electrode_number r \<and> electrode_number r \<le> ne
         then [electrode_number r] else [])" for start stop
    using assms filter_upto_eq [of "start \<le> stimuli r \<and> stimuli r \<le> stop" "electrode_number r" 1 ne]
    by (simp add: in_electrode_data conj_assoc)
  then show ?thesis
    by (simp add: buckets_holding_def trial_conditions_init num_electrodes_init)
qed

text \<open>
  Claim C2, as amended: grouping partitions the trials by the inclusive ranges of the
  stimulus (GN 1 to 30, GS 31 to 60, UN 61 to 90, US 91 to 120).  For every table, a
  row whose stimulus lies in the range of a condition, boundaries included, and whose
  electrode number lies in 1 to \<open>num_electrodes\<close> is held by exactly one bucket, that of
  the condition and of its electrode; with an electrode number outside 1 to
  \<open>num_electrodes\<close> it is held by none.  A row outside all four ranges is held by no
  bucket.  The result has every (condition, electrode) key for the electrodes 1 to
  \<open>num_electrodes\<close>, also for an empty bucket, and the bucket under a key is built
  from the rows of that condition and electrode.
\<close>

theorem grouping_partition:
  assumes "r \<in> set data"
  shows
   "(\<forall>condition start stop.
       (condition, start, stop) \<in> set (trial_conditions (init path nf ne)) \<and>
       start \<le> stimuli r \<and> stimuli r \<le> stop \<longrightarrow>
       buckets_holding (init path nf ne) data r =
         (if 1 \<le> electrode_number r \<and> electrode_number r \<le> ne
          then [(condition, electrode_number r)] else [])) \<and>
    ((\<forall>condition start stop.
        (condition, start, stop) \<in> set (trial_conditions (init path nf ne)) \<longrightarrow>
        \<not> (start \<le> stimuli r \<and> stimuli r \<le> stop)) \<longrightarrow>
      buckets_holding (init path nf ne) data r = []) \<and>
    (\<forall>pre. preprocess_data (init path nf ne) data = Inr pre \<longrightarrow>
       map fst pre = [''GN'', ''GS'', ''UN'', ''US''] \<and>
       (\<forall>condition_data \<in> set pre. map fst (snd condition_data) = [1..ne]) \<and>
       (\<forall>condition_data \<in> set pre. \<forall>electrode_bucket \<in> set (snd condition_data).
          \<exists>start stop.
            (fst condition_data, start, stop) \<in> set (trial_conditions (init path nf ne)) \<and>
            make_bucket (electrode_data (condition_subset data start stop) (fst electrode_bucket)) =
              Inr (snd electrode_bucket)))"
proof (intro conjI allI impI)
  fix condition start stop
  assume "(condition, start, stop) \<in> set (trial_conditions (init path nf ne)) \<and>
       start \<le> stimuli r \<and> stimuli r \<le> stop"
  then show "buckets_holding (init path nf ne) data r =
         (if 1 \<le> electrode_number r \<and> electrode_number r \<le> ne
          then [(condition, electrode_number r)] else [])"
    by (auto simp add: buckets_holding_init [OF assms] trial_conditions_init)
next
  assume "\<forall>condition start stop.
        (condition, start, stop) \<in> set (trial_conditions (init path nf ne)) \<longrightarrow>
        \<not> (start \<le> stimuli r \<and> stimuli r \<le> stop)"
  then show "buckets_holding (init path nf ne) data r = []"
    by (auto simp add: buckets_holding_init [OF assms] trial_conditions_init)
next
  fix pre
  assume pre: "preprocess_data (init path nf ne) data = Inr pre"
  show "map fst pre = [''GN'', ''GS'', ''UN'', ''US'']"
    using preprocess_data_conditions(1) [OF pre] by (simp add: trial_conditions_init)
next
  fix pre
  assume pre: "preprocess_data (init path nf ne) data = Inr pre"
  show "\<forall>condition_data \<in> set pre. map fst (snd condition_data) = [1..ne]"
  proof
    fix x assume "x \<in> set pre"
    then have "(fst x, snd x) \<in> set pre" by simp
    from preprocess_data_conditions(2) [OF pre this] obtain start stop
      where "preprocess_condition (init path nf ne) data start stop = Inr (snd x)" by blast
    from preprocess_condition_buckets(1) [OF this] show "map fst (snd x) = [1..ne]"
      by (simp add: num_electrodes_init)
  qed
next
  fix pre
  assume pre: "preprocess_data (init path nf ne) data = Inr pre"
  show "\<forall>condition_data \<in> set pre. \<forall>electrode_bucket \<in> set (snd condition_data).
          \<exists>start stop.
            (fst condition_data, start, stop) \<in> set (trial_conditions (init path nf ne)) \<and>
            make_bucket (electrode_data (condition_subset data start stop) (fst electrode_bucket)) =
              Inr (snd electrode_bucket)"
  proof (intro ballI)
    fix x y assume "x \<in> set pre" and y: "y \<in> set (snd x)"
    then have "(fst x, snd x) \<in> set pre" by simp
    from preprocess_data_conditions(2) [OF pre this] obtain start stop
      where c: "(fst x, start, stop) \<in> set (trial_conditions (init path nf ne))"
        and pc: "preprocess_condition (init path nf ne) data start stop = Inr (snd x)" by blast
    from y have "(fst y, snd y) \<in> set (snd x)" by simp
    from preprocess_condition_buckets(2) [OF pc this] c
    show "\<exists>start stop.
            (fst x, start, stop) \<in> set (trial_conditions (init path nf ne)) \<and>
            make_bucket (electrode_data (condition_subset data start stop) (fst y)) = Inr (snd y)"
      by blast
  qed
qed

theorem grouping_partition_witness:
  "example_trial \<in> set [example_trial] \<and>
   buckets_holding (init [] 58 1) [example_trial] example_trial = [(''GN'', 1)] \<and>
   preprocess_data (init [] 58 1) [example_trial] = Inr example_preprocessed \<and>
   map fst example_preprocessed = [''GN'', ''GS'', ''UN'', ''US'']"
proof -
  have a: "example_trial \<in> set [example_trial]" by simp
  have b: "(''GN'', 1, 30) \<in> set (trial_conditions (init [] 58 1)) \<and>
      1 \<le> stimuli example_trial \<and> stimuli example_trial \<le> 30"
    by (simp add: trial_conditions_init example_trial_def)
  have c: "1 \<le> electrode_number example_trial \<and> electrode_number example_trial \<le> 1"
    "electrode_number example_trial = 1"
    by (simp_all add: example_trial_def)
  have d: "preprocess_data (init [] 58 1) [example_trial] = Inr example_preprocessed"
    by (rule preprocess_example)
  from grouping_partition [OF a, of "[]" 58 1] b c d show ?thesis by auto
qed

text \<open>A row in the range of GN on electrode 33 is held by no bucket of the default
  analysis, which has 32 electrodes.\<close>

theorem grouping_electrode_out_of_range:
  "(''GN'', 1, 30) \<in> set (trial_conditions (init_default [])) \<and>
   1 \<le> stimuli stray_trial \<and> stimuli stray_trial \<le> 30 \<and>
   stray_trial \<in> set [stray_trial] \<and>
   buckets_holding (init_default []) [stray_trial] stray_trial = []"
  by (simp add: init_default_def trial_conditions_init buckets_holding_init stray_trial_def)






end
